theory Spec2Isabelle
  imports Complex_Main
begin

section \<open>Python values, rows and the table store\<close>

text \<open>
  The three modules talk to one process-wide \<open>database\<close> object through
  \<open>get_in_table(table, **fields)\<close> and \<open>set_in_table(table, match, update, auto_increment)\<close>.
  A row is a dictionary from column names to values; a table is the list of its rows in
  insertion order; the database maps a table name to its table.
\<close>

datatype pyval = PNone | PInt int | PStr string

type_synonym row = "(string \<times> pyval) list"
type_synonym table = "row list"
type_synonym database = "string \<Rightarrow> table"

datatype error = TypeError string | KeyError string | ValueError string | Raised string

fun str_e :: "error \<Rightarrow> string" where
  "str_e (TypeError m) = m"
| "str_e (KeyError m) = m"
| "str_e (ValueError m) = m"
| "str_e (Raised m) = m"

definition row_get :: "row \<Rightarrow> string \<Rightarrow> pyval" where
  \<comment> \<open>\<open>record["column"]\<close>; a column that was never written reads as \<open>None\<close> (SQL NULL)\<close>
  "row_get r f = (case map_of r f of None \<Rightarrow> PNone | Some v \<Rightarrow> v)"

definition row_matches :: "row \<Rightarrow> row \<Rightarrow> bool" where
  "row_matches r m = list_all (\<lambda>fv. map_of r (fst fv) = Some (snd fv)) m"

definition merge_row :: "row \<Rightarrow> row \<Rightarrow> row" where
  "merge_row r u = u @ filter (\<lambda>fv. map_of u (fst fv) = None) r"

fun int_ids :: "table \<Rightarrow> string \<Rightarrow> int list" where
  "int_ids [] f = []"
| "int_ids (r # rs) f = (case row_get r f of PInt i \<Rightarrow> i # int_ids rs f | _ \<Rightarrow> int_ids rs f)"

definition next_id :: "table \<Rightarrow> string \<Rightarrow> int" where
  "next_id rs f = 1 + fold max (int_ids rs f) 0"

definition new_row :: "table \<Rightarrow> row \<Rightarrow> row \<Rightarrow> string option \<Rightarrow> row" where
  "new_row rs m u auto_increment =
     (case auto_increment of
        None \<Rightarrow> m @ u
      | Some f \<Rightarrow> (if map_of (m @ u) f = None then (f, PInt (next_id rs f)) # m @ u else m @ u))"

text \<open>
  Modelled from the spec: the module \<open>policyengine_api.data\<close> (class \<open>PolicyEngineDatabase\<close>)
  is not among the sources. Section 4.1 gives its contract: \<open>get(key_fields)\<close> returns a
  record or absent; \<open>upsert(match_fields, value_fields, auto_increment_field?)\<close> inserts a row
  if no row matches \<open>match_fields\<close> and updates otherwise. A lookup returns the first row that
  carries every given field; an update rewrites the value fields of the rows that match; an
  insert appends the row made of the match and value fields, with a fresh number in the
  auto-increment column when one is named and not supplied.
\<close>

definition get_in_table :: "database \<Rightarrow> string \<Rightarrow> row \<Rightarrow> row option" where
  "get_in_table d t m = find (\<lambda>r. row_matches r m) (d t)"

definition set_in_table :: "database \<Rightarrow> string \<Rightarrow> row \<Rightarrow> row \<Rightarrow> string option \<Rightarrow> database" where
  "set_in_table d t m u auto_increment =
     (if list_ex (\<lambda>r. row_matches r m) (d t)
      then d(t := map (\<lambda>r. if row_matches r m then merge_row r u else r) (d t))
      else d(t := d t @ [new_row (d t) m u auto_increment]))"

subsection \<open>The world: the database and a trace of effects\<close>

text \<open>
  The trace records, in order, every call of the simulator (\<open>compute_economy\<close>), every call
  of the comparator (\<open>compare_economic_outputs\<close>) and every \<open>set_in_table\<close> call with its
  table, match fields and value fields.
\<close>

type_synonym options = "(string \<times> string) list"

datatype event =
    Simulated string pyval string string options
  | Compared
  | Wrote string row row

record world =
  db :: database
  trace :: "event list"

definition upsert :: "world \<Rightarrow> string \<Rightarrow> row \<Rightarrow> row \<Rightarrow> string option \<Rightarrow> world" where
  "upsert w t m u auto_increment =
     w\<lparr>db := set_in_table (db w) t m u auto_increment, trace := trace w @ [Wrote t m u]\<rparr>"

definition emit :: "world \<Rightarrow> event \<Rightarrow> world" where
  "emit w e = w\<lparr>trace := trace w @ [e]\<rparr>"

section \<open>json.dumps on a dictionary of strings\<close>

text \<open>
  \<open>json.dumps(options)\<close> with the default arguments: entries in the dictionary's own
  (insertion) order, separated by \<open>", "\<close>, key and value separated by \<open>": "\<close>, each string
  in double quotes with the escapes of \<open>ensure_ascii=True\<close>. A dictionary is the association
  list of its entries in insertion order; characters are the code points below 256.
\<close>

definition hex_digit :: "nat \<Rightarrow> char" where
  "hex_digit n = ''0123456789abcdef'' ! (n mod 16)"

definition escape_char :: "char \<Rightarrow> string" where
  "escape_char c =
     (if c = CHR 0x22 then [CHR 0x5C, CHR 0x22]
      else if c = CHR 0x5C then [CHR 0x5C, CHR 0x5C]
      else if c = CHR 0x08 then [CHR 0x5C, CHR ''b'']
      else if c = CHR 0x0C then [CHR 0x5C, CHR ''f'']
      else if c = CHR 0x0A then [CHR 0x5C, CHR ''n'']
      else if c = CHR 0x0D then [CHR 0x5C, CHR ''r'']
      else if c = CHR 0x09 then [CHR 0x5C, CHR ''t'']
      else if (of_char c :: nat) < 0x20 \<or> 0x7E < (of_char c :: nat)
        then [CHR 0x5C, CHR ''u'', CHR ''0'', CHR ''0'',
              hex_digit (of_char c div 16), hex_digit (of_char c mod 16)]
      else [c])"

definition encode_string :: "string \<Rightarrow> string" where
  "encode_string s = CHR 0x22 # concat (map escape_char s) @ [CHR 0x22]"

fun join_items :: "string list \<Rightarrow> string" where
  "join_items [] = []"
| "join_items [x] = x"
| "join_items (x # y # ys) = x @ '', '' @ join_items (y # ys)"

definition encode_item :: "string \<times> string \<Rightarrow> string" where
  "encode_item kv = encode_string (fst kv) @ '': '' @ encode_string (snd kv)"

definition json_dumps :: "options \<Rightarrow> string" where
  "json_dumps d = ''{'' @ join_items (map encode_item d) @ ''}''"

section \<open>policy.py: the current-law policy\<close>

type_synonym 'v reform = "(string \<times> (string \<times> 'v) list) list"

text \<open>
  \<open>VERSION\<close> (\<open>policyengine_api.constants\<close>) and \<open>hash_object\<close> (\<open>policyengine_api.utils\<close>)
  are not among the sources and are taken as parameters, as are \<open>json.dumps\<close> on a policy
  and \<open>validate_country\<close> (\<open>policyengine_api.country\<close>), which returns a response when the
  country is unknown and \<open>None\<close> otherwise. A \<open>flask.Response(body, status)\<close> is
  \<open>Response body status\<close>; the dictionary \<open>{"status": s}\<close> is \<open>Status s\<close>.
\<close>

datatype response = Response string nat | Status string

record 'v repo =
  VERSION :: string
  hash_object :: "'v reform \<Rightarrow> string"
  json_dumps_policy :: "'v reform \<Rightarrow> string"
  validate_country :: "string \<Rightarrow> response option"

definition not_subscriptable :: error where
  "not_subscriptable = TypeError ''NoneType object is not subscriptable''"

definition get_current_law_policy_id :: "'v repo \<Rightarrow> database \<Rightarrow> string \<Rightarrow> error + pyval" where
  \<comment> \<open>\<open>query("SELECT id FROM policy WHERE country_id = ? AND policy_hash = ?").fetchone()[0]\<close>\<close>
  "get_current_law_policy_id repo d country_id =
     (let policy_hash = hash_object repo []
      in case get_in_table d ''policy''
                [(''country_id'', PStr country_id), (''policy_hash'', PStr policy_hash)] of
           None \<Rightarrow> Inl not_subscriptable
         | Some r \<Rightarrow> Inr (row_get r ''id''))"

section \<open>compute_api.py: the dispatcher and the resolver\<close>

text \<open>
  The collaborators that are not among the sources are parameters: the simulator
  \<open>compute_economy\<close> and the comparator \<open>compare_economic_outputs\<close>, each returning a
  value or raising, and \<open>json.dumps\<close>/\<open>json.loads\<close> on their results.
\<close>

record ('r, 'i) engine =
  compute_economy :: "string \<Rightarrow> pyval \<Rightarrow> string \<Rightarrow> string \<Rightarrow> options \<Rightarrow> error + 'r"
  compare_economic_outputs :: "'r \<Rightarrow> 'r \<Rightarrow> error + 'i"
  json_dumps_economy :: "'r \<Rightarrow> error + string"
  json_loads_economy :: "string \<Rightarrow> error + 'r"
  json_dumps_impact :: "'i \<Rightarrow> error + string"

definition countries :: "string list" where
  "countries = [''uk'', ''us'']"

definition dict_pop :: "options \<Rightarrow> string \<Rightarrow> string option \<times> options" where
  "dict_pop d k = (map_of d k, filter (\<lambda>kv. fst kv \<noteq> k) d)"

definition economy_match :: "string \<Rightarrow> string \<Rightarrow> pyval \<Rightarrow> string \<Rightarrow> string \<Rightarrow> options \<Rightarrow> row" where
  "economy_match ver country_id policy_id region time_period opts =
     [(''country_id'', PStr country_id), (''policy_id'', policy_id), (''region'', PStr region),
      (''time_period'', PStr time_period), (''options_json'', PStr (json_dumps opts)),
      (''api_version'', PStr ver)]"

definition economy_kwargs :: "string \<Rightarrow> string \<Rightarrow> string \<Rightarrow> string \<Rightarrow> options \<Rightarrow> row" where
  "economy_kwargs ver country_id region time_period opts =
     [(''country_id'', PStr country_id), (''region'', PStr region),
      (''time_period'', PStr time_period), (''options_json'', PStr (json_dumps opts)),
      (''api_version'', PStr ver)]"

definition reform_impact_match ::
  "string \<Rightarrow> string \<Rightarrow> pyval \<Rightarrow> pyval \<Rightarrow> string \<Rightarrow> string \<Rightarrow> options \<Rightarrow> row" where
  "reform_impact_match ver country_id policy_id baseline_policy_id region time_period opts =
     [(''country_id'', PStr country_id), (''reform_policy_id'', policy_id),
      (''baseline_policy_id'', baseline_policy_id), (''region'', PStr region),
      (''time_period'', PStr time_period), (''options_json'', PStr (json_dumps opts)),
      (''api_version'', PStr ver)]"

definition ensure_economy_computed ::
  "('r, 'i) engine \<Rightarrow> 'v repo \<Rightarrow> world \<Rightarrow> string \<Rightarrow> pyval \<Rightarrow> string \<Rightarrow> string \<Rightarrow> options
    \<Rightarrow> world \<times> (error + unit)" where
  "ensure_economy_computed eng repo w country_id policy_id region time_period opts =
     (let key = economy_match (VERSION repo) country_id policy_id region time_period opts
      in case get_in_table (db w) ''economy'' key of
           Some economy \<Rightarrow> (w, Inr ())
         | None \<Rightarrow>
             (let w1 = emit w (Simulated country_id policy_id region time_period opts);
                  failed = (\<lambda>e. (upsert w1 ''economy'' key
                                   [(''economy_json'', PStr ''{}''), (''status'', PStr ''error''),
                                    (''message'', PStr (str_e e))] None, Inr ()))
              in case compute_economy eng country_id policy_id region time_period opts of
                   Inl e \<Rightarrow> failed e
                 | Inr economy_result \<Rightarrow>
                     (case json_dumps_economy eng economy_result of
                        Inl e \<Rightarrow> failed e
                      | Inr economy_json \<Rightarrow>
                          (upsert w1 ''economy'' key
                             [(''economy_json'', PStr economy_json), (''status'', PStr ''ok'')] None,
                           Inr ()))))"

definition loads_column :: "('r, 'i) engine \<Rightarrow> pyval \<Rightarrow> error + 'r" where
  "loads_column eng v =
     (case v of
        PStr s \<Rightarrow> json_loads_economy eng s
      | _ \<Rightarrow> Inl (TypeError ''the JSON object must be str, bytes or bytearray''))"

definition set_reform_impact_data ::
  "('r, 'i) engine \<Rightarrow> 'v repo \<Rightarrow> world \<Rightarrow> pyval \<Rightarrow> pyval \<Rightarrow> string \<Rightarrow> string \<Rightarrow> string \<Rightarrow> options
    \<Rightarrow> world \<times> (error + unit)" where
  "set_reform_impact_data eng repo w baseline_policy_id policy_id country_id region time_period opts =
     (case ensure_economy_computed eng repo w country_id baseline_policy_id region time_period opts of
        (w1, Inl e) \<Rightarrow> (w1, Inl e)
      | (w1, Inr _) \<Rightarrow>
     (case ensure_economy_computed eng repo w1 country_id policy_id region time_period opts of
        (w2, Inl e) \<Rightarrow> (w2, Inl e)
      | (w2, Inr _) \<Rightarrow>
     (let kwargs = economy_kwargs (VERSION repo) country_id region time_period opts;
          baseline_economy = get_in_table (db w2) ''economy'' ((''policy_id'', baseline_policy_id) # kwargs);
          reform_economy = get_in_table (db w2) ''economy'' ((''policy_id'', policy_id) # kwargs);
          key = kwargs @ [(''baseline_policy_id'', baseline_policy_id), (''reform_policy_id'', policy_id)];
          failed = (upsert w2 ''reform_impact'' key
                      [(''reform_impact_json'', PStr ''{}''), (''status'', PStr ''error''),
                       (''message'', PStr ''Baseline or reform economy computation failed.'')] None,
                    Inr ())
      in case baseline_economy of
           None \<Rightarrow> (w2, Inl not_subscriptable)
         | Some be \<Rightarrow>
             if row_get be ''status'' \<noteq> PStr ''ok'' then failed
             else (case reform_economy of
                     None \<Rightarrow> (w2, Inl not_subscriptable)
                   | Some re \<Rightarrow>
                       if row_get re ''status'' \<noteq> PStr ''ok'' then failed
                       else (case loads_column eng (row_get be ''economy_json'') of
                               Inl e \<Rightarrow> (w2, Inl e)
                             | Inr b \<Rightarrow>
                           (case loads_column eng (row_get re ''economy_json'') of
                               Inl e \<Rightarrow> (w2, Inl e)
                             | Inr r \<Rightarrow>
                           (let w3 = emit w2 Compared
                            in case compare_economic_outputs eng b r of
                                 Inl e \<Rightarrow> (w3, Inl e)
                               | Inr impact \<Rightarrow>
                                   (case json_dumps_impact eng impact of
                                      Inl e \<Rightarrow> (w3, Inl e)
                                    | Inr impact_json \<Rightarrow>
                                        (upsert w3 ''reform_impact'' key
                                           [(''reform_impact_json'', PStr impact_json),
                                            (''status'', PStr ''ok'')] None,
                                         Inr ())))))))))"

type_synonym thread_args = "pyval \<times> pyval \<times> string \<times> string \<times> string \<times> options"

definition score_policy_reform_against_baseline ::
  "'v repo \<Rightarrow> world \<Rightarrow> string \<Rightarrow> string \<Rightarrow> string option \<Rightarrow> options
    \<Rightarrow> world \<times> (error + response \<times> thread_args option)" where
  "score_policy_reform_against_baseline repo w country_id policy_id baseline_policy_id args =
     (let (region, options1) = dict_pop args ''region'';
          (time_period, opts) = dict_pop options1 ''time_period''
      in case region of
           None \<Rightarrow> (w, Inr (Response ''Region not specified.'' 400, None))
         | Some region \<Rightarrow>
      (case time_period of
           None \<Rightarrow> (w, Inr (Response ''Time period not specified.'' 400, None))
         | Some time_period \<Rightarrow>
      if country_id \<notin> set countries
      then (w, Inr (Response (''Country '' @ country_id @ '' not found.'') 404, None))
      else
      (case (case baseline_policy_id of
               None \<Rightarrow> get_current_law_policy_id repo (db w) country_id
             | Some b \<Rightarrow> Inr (PStr b)) of
           Inl e \<Rightarrow> (w, Inl e)
         | Inr baseline \<Rightarrow>
             (let key = reform_impact_match (VERSION repo) country_id (PStr policy_id) baseline
                          region time_period opts
              in case get_in_table (db w) ''reform_impact'' key of
                   Some reform_impact \<Rightarrow> (w, Inr (Status ''computing'', None))
                 | None \<Rightarrow>
                     (upsert w ''reform_impact'' key
                        [(''reform_impact_json'', PStr ''{}''), (''status'', PStr ''computing'')] None,
                      Inr (Status ''computing'',
                           Some (baseline, PStr policy_id, country_id, region, time_period, opts)))))))"

text \<open>
  \<open>threading.Thread(target=set_reform_impact_data, args=...).start()\<close>: the handler has
  already written the placeholder and produced its response when the thread starts; the
  thread body then runs \<open>set_reform_impact_data\<close> on the arguments it was given. A request
  is the handler followed by the body of the thread it started, if any.
\<close>

definition compare_request ::
  "('r, 'i) engine \<Rightarrow> 'v repo \<Rightarrow> world \<Rightarrow> string \<Rightarrow> string \<Rightarrow> string option \<Rightarrow> options
    \<Rightarrow> world \<times> (error + response) \<times> (error + unit) option" where
  "compare_request eng repo w country_id policy_id baseline_policy_id args =
     (case score_policy_reform_against_baseline repo w country_id policy_id baseline_policy_id args of
        (w1, Inl e) \<Rightarrow> (w1, Inl e, None)
      | (w1, Inr (resp, None)) \<Rightarrow> (w1, Inr resp, None)
      | (w1, Inr (resp, Some (b, p, c, r, t, opts))) \<Rightarrow>
          (case set_reform_impact_data eng repo w1 b p c r t opts of
             (w2, out) \<Rightarrow> (w2, Inr resp, Some out)))"


section \<open>policy.py: storing a policy\<close>

datatype 'a reply = Ok 'a | Error string | Refused response

definition set_policy ::
  "'v repo \<Rightarrow> world \<Rightarrow> string \<Rightarrow> pyval \<Rightarrow> 'v reform \<Rightarrow> pyval \<Rightarrow> world \<times> (error + pyval reply)" where
  "set_policy repo w country_id policy_id policy_json label =
     (case validate_country repo country_id of
        Some country_not_found \<Rightarrow> (w, Inr (Refused country_not_found))
      | None \<Rightarrow>
          (let policy_hash = hash_object repo policy_json;
               match = (''policy_hash'', PStr policy_hash) #
                         (if policy_id \<noteq> PNone then [(''id'', policy_id)] else []);
               w1 = upsert w ''policy'' match
                      [(''country_id'', PStr country_id),
                       (''policy_json'', PStr (json_dumps_policy repo policy_json)),
                       (''label'', label), (''api_version'', PStr (VERSION repo))]
                      (Some ''id'')
           in case get_in_table (db w1) ''policy''
                     [(''country_id'', PStr country_id), (''policy_hash'', PStr policy_hash)] of
                None \<Rightarrow> (w1, Inl not_subscriptable)
              | Some r \<Rightarrow> (w1, Inr (Ok (row_get r ''id'')))))"

section \<open>Vocabulary of the statements\<close>

text \<open>
  \<open>untouched u m\<close>: the value fields \<open>u\<close> of a write name none of the columns of \<open>m\<close>.
\<close>

definition untouched :: "row \<Rightarrow> row \<Rightarrow> bool" where
  "untouched u m = list_all (\<lambda>fv. map_of u (fst fv) = None) m"

text \<open>Collaborators for running the modules on concrete inputs.\<close>

definition example_repo :: "int repo" where
  "example_repo =
     \<lparr>VERSION = ''0.1.0'',
      hash_object = (\<lambda>p. ''h:'' @ concat (map fst p)),
      json_dumps_policy = (\<lambda>p. ''p:'' @ concat (map fst p)),
      validate_country = (\<lambda>c. if c \<in> set countries then None
                               else Some (Response (''Country '' @ c @ '' not found.'') 404))\<rparr>"

definition example_engine :: "(string, string) engine" where
  "example_engine =
     \<lparr>compute_economy = (\<lambda>c p r t opts.
         if p = PStr ''13'' then Inl (Raised ''simulation failed'')
         else Inr (''economy of '' @ (case p of PStr s \<Rightarrow> s | _ \<Rightarrow> ''current law''))),
      compare_economic_outputs = (\<lambda>b r. Inr (b @ '' against '' @ r)),
      json_dumps_economy = Inr,
      json_loads_economy = Inr,
      json_dumps_impact = Inr\<rparr>"

definition failing_comparator :: "(string, string) engine" where
  "failing_comparator =
     example_engine\<lparr>compare_economic_outputs := (\<lambda>b r. Inl (Raised ''comparison failed''))\<rparr>"

definition empty_world :: world where
  "empty_world = \<lparr>db = (\<lambda>t. []), trace = []\<rparr>"

definition example_args :: options where
  "example_args = [(''region'', ''uk''), (''time_period'', ''2024'')]"

text \<open>
  Reading the cache: the economy record and the reform-impact record of a request, and the
  status stored in a record.
\<close>

definition economy_record ::
  "'v repo \<Rightarrow> database \<Rightarrow> string \<Rightarrow> pyval \<Rightarrow> string \<Rightarrow> string \<Rightarrow> options \<Rightarrow> row option" where
  "economy_record repo d country_id policy_id region time_period opts =
     get_in_table d ''economy''
       (economy_match (VERSION repo) country_id policy_id region time_period opts)"

definition impact_record ::
  "'v repo \<Rightarrow> database \<Rightarrow> string \<Rightarrow> pyval \<Rightarrow> pyval \<Rightarrow> string \<Rightarrow> string \<Rightarrow> options \<Rightarrow> row option" where
  "impact_record repo d country_id policy_id baseline_policy_id region time_period opts =
     get_in_table d ''reform_impact''
       (reform_impact_match (VERSION repo) country_id policy_id baseline_policy_id
          region time_period opts)"

definition record_status :: "row option \<Rightarrow> pyval option" where
  "record_status rec = map_option (\<lambda>r. row_get r ''status'') rec"

text \<open>
  The value fields that \<open>ensure_economy_computed\<close> writes when it computes: the serialized
  result with status \<open>ok\<close>, or the empty object with status \<open>error\<close> and the message of
  the exception raised by the simulator or by \<open>json.dumps\<close>.
\<close>

definition economy_failed :: "error \<Rightarrow> row" where
  "economy_failed e =
     [(''economy_json'', PStr ''{}''), (''status'', PStr ''error''), (''message'', PStr (str_e e))]"

definition economy_outcome ::
  "('r, 'i) engine \<Rightarrow> string \<Rightarrow> pyval \<Rightarrow> string \<Rightarrow> string \<Rightarrow> options \<Rightarrow> row" where
  "economy_outcome eng country_id policy_id region time_period opts =
     (case compute_economy eng country_id policy_id region time_period opts of
        Inl e \<Rightarrow> economy_failed e
      | Inr economy_result \<Rightarrow>
          (case json_dumps_economy eng economy_result of
             Inl e \<Rightarrow> economy_failed e
           | Inr economy_json \<Rightarrow>
               [(''economy_json'', PStr economy_json), (''status'', PStr ''ok'')]))"

text \<open>Counting in a trace: calls of the simulator for one request, calls of the comparator.\<close>

definition simulator_calls ::
  "event list \<Rightarrow> string \<Rightarrow> pyval \<Rightarrow> string \<Rightarrow> string \<Rightarrow> options \<Rightarrow> nat" where
  "simulator_calls es country_id policy_id region time_period opts =
     count_list es (Simulated country_id policy_id region time_period opts)"

definition comparator_calls :: "event list \<Rightarrow> nat" where
  "comparator_calls es = count_list es Compared"

text \<open>
  The value fields of the writes to table \<open>t\<close> whose match fields are those of \<open>key\<close>
  (in any order), in the order of the trace.
\<close>

fun writes_under :: "string \<Rightarrow> row \<Rightarrow> event list \<Rightarrow> row list" where
  "writes_under t key [] = []"
| "writes_under t key (Wrote t' m u # es) =
     (if t' = t \<and> row_matches m key \<and> row_matches key m
      then u # writes_under t key es else writes_under t key es)"
| "writes_under t key (e # es) = writes_under t key es"

definition record_message :: "row option \<Rightarrow> pyval option" where
  "record_message rec = map_option (\<lambda>r. row_get r ''message'') rec"

text \<open>
  The state left by one compare request for reform 13 against baseline 1, where the
  simulation of policy 13 fails: it holds a reform-impact record with status \<open>error\<close>.
\<close>

definition cached_error_world :: world where
  "cached_error_world =
     fst (compare_request example_engine example_repo empty_world ''uk'' ''13'' (Some ''1'')
            example_args)"

text \<open>
  The world once both prerequisite economy computations of a reform-impact resolution have
  completed (baseline first, then reform), and the events one \<open>ensure_economy_computed\<close>
  call adds to the trace.
\<close>

definition prerequisites_done ::
  "('r, 'i) engine \<Rightarrow> 'v repo \<Rightarrow> world \<Rightarrow> string \<Rightarrow> pyval \<Rightarrow> pyval \<Rightarrow> string \<Rightarrow> string \<Rightarrow> options
    \<Rightarrow> world" where
  "prerequisites_done eng repo w country_id baseline_policy_id policy_id region time_period opts =
     fst (ensure_economy_computed eng repo
            (fst (ensure_economy_computed eng repo w country_id baseline_policy_id
                    region time_period opts))
            country_id policy_id region time_period opts)"

definition ensure_events ::
  "('r, 'i) engine \<Rightarrow> 'v repo \<Rightarrow> world \<Rightarrow> string \<Rightarrow> pyval \<Rightarrow> string \<Rightarrow> string \<Rightarrow> options
    \<Rightarrow> event list" where
  "ensure_events eng repo w country_id policy_id region time_period opts =
     (if economy_record repo (db w) country_id policy_id region time_period opts = None
      then [Simulated country_id policy_id region time_period opts,
            Wrote ''economy''
              (economy_match (VERSION repo) country_id policy_id region time_period opts)
              (economy_outcome eng country_id policy_id region time_period opts)]
      else [])"

text \<open>The value fields of the three writes to the reform-impact table.\<close>

definition impact_placeholder :: row where
  "impact_placeholder = [(''reform_impact_json'', PStr ''{}''), (''status'', PStr ''computing'')]"

definition impact_failed :: row where
  "impact_failed =
     [(''reform_impact_json'', PStr ''{}''), (''status'', PStr ''error''),
      (''message'', PStr ''Baseline or reform economy computation failed.'')]"

definition impact_ok :: "string \<Rightarrow> row" where
  "impact_ok impact_json = [(''reform_impact_json'', PStr impact_json), (''status'', PStr ''ok'')]"

definition impact_key ::
  "string \<Rightarrow> string \<Rightarrow> pyval \<Rightarrow> pyval \<Rightarrow> string \<Rightarrow> string \<Rightarrow> options \<Rightarrow> row" where
  "impact_key ver country_id policy_id baseline_policy_id region time_period opts =
     economy_kwargs ver country_id region time_period opts @
       [(''baseline_policy_id'', baseline_policy_id), (''reform_policy_id'', policy_id)]"

definition record_json :: "row option \<Rightarrow> pyval option" where
  "record_json rec = map_option (\<lambda>r. row_get r ''reform_impact_json'') rec"

section \<open>Properties of the table store\<close>

lemma map_of_filter_none:
  "map_of (filter (\<lambda>fv. map_of u (fst fv) = None) r) f =
     (if map_of u f = None then map_of r f else None)"
  by (induction r) auto

lemma map_of_merge_row:
  "map_of (merge_row r u) f = (case map_of u f of None \<Rightarrow> map_of r f | Some v \<Rightarrow> Some v)"
  by (auto simp: merge_row_def map_add_def map_of_filter_none split: option.splits)

lemma row_matches_iff:
  "row_matches r m \<longleftrightarrow> (\<forall>fv \<in> set m. map_of r (fst fv) = Some (snd fv))"
  by (simp add: row_matches_def list_all_iff)

lemma row_matches_same_set: "set m = set m' \<Longrightarrow> row_matches r m = row_matches r m'"
  by (simp add: row_matches_iff)

lemma get_in_table_same_set:
  assumes "set m = set m'"
  shows "get_in_table d t m = get_in_table d t m'"
proof -
  have "(\<lambda>r. row_matches r m) = (\<lambda>r. row_matches r m')"
    using assms by (simp add: row_matches_iff fun_eq_iff)
  then show ?thesis by (simp add: get_in_table_def)
qed


lemma row_matches_merge:
  "untouched u m \<Longrightarrow> row_matches (merge_row r u) m = row_matches r m"
  by (simp add: row_matches_iff untouched_def list_all_iff map_of_merge_row)

lemma find_map_same:
  "(\<And>r. P r \<Longrightarrow> P (g r)) \<Longrightarrow>
   find P (map (\<lambda>r. if P r then g r else r) rs) = map_option g (find P rs)"
  by (induction rs) auto

lemma find_append_new:
  "\<not> list_ex P rs \<Longrightarrow> find P (rs @ [x]) = (if P x then Some x else None)"
  by (induction rs) auto

lemma list_ex_find: "list_ex P rs \<longleftrightarrow> find P rs \<noteq> None"
  by (induction rs) auto

lemma row_matches_new_row:
  assumes "distinct (map fst m)"
  shows "row_matches (new_row rs m u ai) m"
proof -
  have own: "map_of (m @ u) (fst fv) = Some (snd fv)" if "fv \<in> set m" for fv
  proof -
    have "map_of m (fst fv) = Some (snd fv)"
      using that assms by (intro map_of_is_SomeI) simp_all
    then show ?thesis by (simp add: map_add_Some_iff)
  qed
  show ?thesis
  proof (cases ai)
    case None
    then show ?thesis by (simp add: row_matches_iff new_row_def own del: map_of_append)
  next
    case (Some f)
    show ?thesis
    proof (cases "map_of (m @ u) f = None")
      case True
      then have "fst fv \<noteq> f" if "fv \<in> set m" for fv
        using own [OF that] by auto
      then show ?thesis
        using Some True own by (simp add: row_matches_iff new_row_def del: map_of_append)
    next
      case False
      then have "new_row rs m u ai = m @ u"
        using Some by (simp add: new_row_def del: map_of_append)
      then show ?thesis
        using own by (simp add: row_matches_iff del: map_of_append)
    qed
  qed
qed

lemma get_after_set:
  assumes "untouched u m" "distinct (map fst m)"
  shows "get_in_table (set_in_table d t m u ai) t m =
           Some (case get_in_table d t m of
                   None \<Rightarrow> new_row (d t) m u ai
                 | Some r \<Rightarrow> merge_row r u)"
proof (cases "list_ex (\<lambda>r. row_matches r m) (d t)")
  case True
  then show ?thesis
    using assms
    by (auto simp: get_in_table_def set_in_table_def find_map_same row_matches_merge list_ex_find)
next
  case False
  then show ?thesis
    using assms
    by (auto simp: get_in_table_def set_in_table_def find_append_new row_matches_new_row list_ex_find)
qed

lemma get_other_table:
  "t' \<noteq> t \<Longrightarrow> get_in_table (set_in_table d t m u ai) t' m' = get_in_table d t' m'"
  by (simp add: get_in_table_def set_in_table_def)

lemma find_map_keeps:
  "(\<And>r. Q r \<Longrightarrow> Q (h r)) \<Longrightarrow> find Q rs \<noteq> None \<Longrightarrow> find Q (map h rs) \<noteq> None"
  by (induction rs) (auto split: if_splits)

lemma find_append_keeps: "find Q rs \<noteq> None \<Longrightarrow> find Q (rs @ xs) \<noteq> None"
  by (induction rs) auto

lemma get_stays_present:
  assumes "get_in_table d t' m' \<noteq> None" "untouched u m'"
  shows "get_in_table (set_in_table d t m u ai) t' m' \<noteq> None"
proof (cases "t' = t")
  case False
  then show ?thesis using assms(1) by (simp add: get_other_table)
next
  case True
  let ?Q = "\<lambda>r. row_matches r m'"
  let ?h = "\<lambda>r. if row_matches r m then merge_row r u else r"
  have present: "find ?Q (d t) \<noteq> None"
    using assms(1) True by (simp add: get_in_table_def)
  have keep: "?Q (?h r)" if "?Q r" for r
    using that assms(2) by (simp add: row_matches_merge)
  show ?thesis
  proof (cases "list_ex (\<lambda>r. row_matches r m) (d t)")
    case True
    have "find ?Q (map ?h (d t)) \<noteq> None"
      using keep present by (rule find_map_keeps)
    then show ?thesis
      using True \<open>t' = t\<close> by (simp add: get_in_table_def set_in_table_def)
  next
    case False
    have "find ?Q (d t @ [new_row (d t) m u ai]) \<noteq> None"
      using present by (rule find_append_keeps)
    then show ?thesis
      using False \<open>t' = t\<close> by (simp add: get_in_table_def set_in_table_def)
  qed
qed

lemma find_map_other:
  "(\<And>r. P r \<Longrightarrow> \<not> Q r \<and> \<not> Q (g r)) \<Longrightarrow>
   find Q (map (\<lambda>r. if P r then g r else r) rs) = find Q rs"
  by (induction rs) auto

lemma find_append_other: "\<not> Q x \<Longrightarrow> find Q (rs @ [x]) = find Q rs"
  by (induction rs) auto

lemma row_matches_field: "row_matches r m \<Longrightarrow> (f, v) \<in> set m \<Longrightarrow> map_of r f = Some v"
  by (auto simp: row_matches_iff)

lemma map_of_new_row:
  "map_of m f = Some v \<Longrightarrow> map_of (new_row rs m u ai) f = Some v"
  by (auto simp: new_row_def map_add_Some_iff split: option.splits)

lemma get_other_key:
  assumes "map_of m f = Some v" "(f, v') \<in> set m'" "v \<noteq> v'" "untouched u m'"
  shows "get_in_table (set_in_table d t m u ai) t m' = get_in_table d t m'"
proof -
  have in_m: "(f, v) \<in> set m" using assms(1) by (rule map_of_SomeD)
  have apart: "\<not> row_matches r m'" if "row_matches r m" for r
    using row_matches_field [OF that in_m] row_matches_field [of r m' f v'] assms(2,3) by auto
  have apart': "\<not> row_matches (merge_row r u) m'" if "row_matches r m" for r
    using apart [OF that] assms(4) by (simp add: row_matches_merge)
  have fresh: "\<not> row_matches (new_row (d t) m u ai) m'"
    using map_of_new_row [OF assms(1), of "d t" u ai] row_matches_field [of _ m' f v'] assms(2,3)
    by auto
  show ?thesis
  proof (cases "list_ex (\<lambda>r. row_matches r m) (d t)")
    case True
    then show ?thesis
      using find_map_other [where P = "\<lambda>r. row_matches r m" and Q = "\<lambda>r. row_matches r m'"
                              and g = "\<lambda>r. merge_row r u"] apart apart'
      by (simp add: get_in_table_def set_in_table_def)
  next
    case False
    then show ?thesis
      using fresh by (simp add: get_in_table_def set_in_table_def find_append_other)
  qed
qed

lemma read_after_write:
  assumes "untouched u m" "distinct (map fst m)" "set m' = set m" "map_of u f = Some v"
  shows "\<exists>row. get_in_table (set_in_table d t m u None) t m' = Some row \<and> row_get row f = v"
proof -
  have "map_of (m @ u) f = Some v"
  proof -
    have "map_of m f = None"
    proof (rule ccontr)
      assume "map_of m f \<noteq> None"
      then obtain x where "(f, x) \<in> set m" by (auto dest: map_of_SomeD)
      then show False using assms(1,4) by (auto simp: untouched_def list_all_iff)
    qed
    then show ?thesis using assms(4) by (simp add: map_add_Some_iff)
  qed
  then have "row_get (new_row (d t) m u None) f = v"
    by (simp add: new_row_def row_get_def del: map_of_append)
  moreover have "row_get (merge_row r u) f = v" for r
    using assms(4) by (simp add: row_get_def map_of_merge_row)
  ultimately show ?thesis
    using get_after_set [OF assms(1,2), of d t None] get_in_table_same_set [OF assms(3)]
    by (auto split: option.splits)
qed

section \<open>The dispatcher: \<open>ensure_economy_computed\<close>\<close>

lemma ensure_hit:
  assumes "economy_record repo (db w) c p r t opts \<noteq> None"
  shows "ensure_economy_computed eng repo w c p r t opts = (w, Inr ())"
  using assms by (auto simp: ensure_economy_computed_def economy_record_def Let_def)

lemma ensure_miss:
  assumes "economy_record repo (db w) c p r t opts = None"
  shows "ensure_economy_computed eng repo w c p r t opts =
           (upsert (emit w (Simulated c p r t opts)) ''economy''
              (economy_match (VERSION repo) c p r t opts)
              (economy_outcome eng c p r t opts) None, Inr ())"
  using assms
  by (simp add: ensure_economy_computed_def economy_record_def Let_def economy_outcome_def
                economy_failed_def split: sum.splits)

lemma ensure_never_raises: "snd (ensure_economy_computed eng repo w c p r t opts) = Inr ()"
  by (cases "economy_record repo (db w) c p r t opts = None") (simp_all add: ensure_hit ensure_miss)

lemma distinct_economy_match: "distinct (map fst (economy_match v c p r t opts))"
  by (simp add: economy_match_def)

lemma untouched_economy_outcome:
  "untouched (economy_outcome eng c p r t opts) (economy_match v c' p' r' t' opts')"
  by (simp add: economy_outcome_def economy_failed_def untouched_def economy_match_def
           split: sum.splits)

lemma economy_record_after_miss:
  assumes "economy_record repo (db w) c p r t opts = None"
  shows "economy_record repo (db (fst (ensure_economy_computed eng repo w c p r t opts))) c p r t opts
           = Some (economy_match (VERSION repo) c p r t opts @ economy_outcome eng c p r t opts)"
proof -
  let ?K = "economy_match (VERSION repo) c p r t opts"
  let ?U = "economy_outcome eng c p r t opts"
  have absent: "get_in_table (db w) ''economy'' ?K = None"
    using assms by (simp add: economy_record_def)
  have "get_in_table (set_in_table (db w) ''economy'' ?K ?U None) ''economy'' ?K =
          Some (case get_in_table (db w) ''economy'' ?K of
                  None \<Rightarrow> new_row (db w ''economy'') ?K ?U None
                | Some r \<Rightarrow> merge_row r ?U)"
    by (rule get_after_set [OF untouched_economy_outcome distinct_economy_match])
  then show ?thesis
    using absent
    by (simp add: ensure_miss [OF assms] economy_record_def upsert_def emit_def new_row_def)
qed

lemma ensure_present:
  "economy_record repo (db (fst (ensure_economy_computed eng repo w c p r t opts))) c p r t opts \<noteq> None"
  by (cases "economy_record repo (db w) c p r t opts = None")
     (simp_all add: economy_record_after_miss ensure_hit)

lemma ensure_keeps_present:
  assumes "economy_record repo (db w) c' p' r' t' opts' \<noteq> None"
  shows "economy_record repo (db (fst (ensure_economy_computed eng repo w c p r t opts)))
           c' p' r' t' opts' \<noteq> None"
proof (cases "economy_record repo (db w) c p r t opts = None")
  case True
  show ?thesis
    using assms get_stays_present [OF _ untouched_economy_outcome]
    by (simp add: ensure_miss [OF True] economy_record_def upsert_def emit_def)
next
  case False
  then show ?thesis using assms by (simp add: ensure_hit)
qed

lemma ensure_trace_miss:
  assumes "economy_record repo (db w) c p r t opts = None"
  shows "trace (fst (ensure_economy_computed eng repo w c p r t opts)) =
           trace w @ [Simulated c p r t opts,
                      Wrote ''economy'' (economy_match (VERSION repo) c p r t opts)
                            (economy_outcome eng c p r t opts)]"
  by (simp add: ensure_miss [OF assms] upsert_def emit_def)

lemma row_get_status_outcome:
  "row_get (economy_match v c p r t opts @ economy_outcome eng c p r t opts) ''status''
     = PStr ''ok'' \<or>
   row_get (economy_match v c p r t opts @ economy_outcome eng c p r t opts) ''status''
     = PStr ''error''"
  by (simp add: row_get_def economy_match_def economy_outcome_def economy_failed_def
           split: sum.splits)

section \<open>The compare endpoint\<close>

text \<open>Unfolding a run on concrete inputs.\<close>

lemmas run_defs =
  compare_request_def score_policy_reform_against_baseline_def set_reform_impact_data_def
  ensure_economy_computed_def dict_pop_def countries_def economy_match_def economy_kwargs_def
  reform_impact_match_def upsert_def emit_def set_in_table_def get_in_table_def row_matches_def
  row_get_def merge_row_def new_row_def loads_column_def json_dumps_def
  example_repo_def example_engine_def failing_comparator_def empty_world_def example_args_def
  economy_record_def impact_record_def record_status_def record_message_def

text \<open>
  On a cache hit the handler starts nothing and writes nothing; whatever the record holds,
  its reply is \<open>{"status": "computing"}\<close>.
\<close>

lemma score_hit:
  assumes "map_of args ''region'' = Some region"
    and "map_of args ''time_period'' = Some time_period"
    and "country_id \<in> set countries"
    and "impact_record repo (db w) country_id (PStr policy_id) (PStr b) region time_period
           (filter (\<lambda>kv. fst kv \<noteq> ''time_period'') (filter (\<lambda>kv. fst kv \<noteq> ''region'') args))
         \<noteq> None"
  shows "score_policy_reform_against_baseline repo w country_id policy_id (Some b) args
           = (w, Inr (Status ''computing'', None))"
proof -
  have tp: "map_of (filter (\<lambda>kv. fst kv \<noteq> ''region'') args) ''time_period'' = Some time_period"
    using assms(2) by (induction args) auto
  show ?thesis
    using assms(1,3,4) tp
    by (auto simp: score_policy_reform_against_baseline_def dict_pop_def impact_record_def)
qed

text \<open>
  A simulator failure is caught inside \<open>ensure_economy_computed\<close> and stored as an error
  record carrying the message of the exception.
\<close>

lemma simulator_failure_recorded:
  assumes "economy_record repo (db w) c p r t opts = None"
    and "compute_economy eng c p r t opts = Inl e"
  shows "snd (ensure_economy_computed eng repo w c p r t opts) = Inr () \<and>
         economy_record repo (db (fst (ensure_economy_computed eng repo w c p r t opts))) c p r t opts
           = Some (economy_match (VERSION repo) c p r t opts @ economy_failed e)"
  using economy_record_after_miss [OF assms(1), where eng = eng] assms(2)
  by (simp add: ensure_never_raises economy_outcome_def)

text \<open>The reform-impact record that \<open>cached_error_world\<close> holds.\<close>

lemma cached_error_world_impact:
  "impact_record example_repo (db cached_error_world)
     ''uk'' (PStr ''13'') (PStr ''1'') ''uk'' ''2024'' []
     = Some [(''reform_impact_json'', PStr ''{}''), (''status'', PStr ''error''),
             (''message'', PStr ''Baseline or reform economy computation failed.''),
             (''country_id'', PStr ''uk''), (''reform_policy_id'', PStr ''13''),
             (''baseline_policy_id'', PStr ''1''), (''region'', PStr ''uk''),
             (''time_period'', PStr ''2024''), (''options_json'', PStr ''{}''),
             (''api_version'', PStr ''0.1.0'')]"
  by (simp add: cached_error_world_def run_defs Let_def)

section \<open>The resolver: \<open>set_reform_impact_data\<close>\<close>

lemma ensure_eq:
  "ensure_economy_computed eng repo w c p r t opts =
     (fst (ensure_economy_computed eng repo w c p r t opts), Inr ())"
  using ensure_never_raises [of eng repo w c p r t opts] by (simp add: prod_eq_iff)

lemma ensure_trace:
  "trace (fst (ensure_economy_computed eng repo w c p r t opts)) =
     trace w @ ensure_events eng repo w c p r t opts"
  by (cases "economy_record repo (db w) c p r t opts = None")
     (simp_all add: ensure_events_def ensure_trace_miss ensure_hit)

lemma comparator_calls_append:
  "comparator_calls (es @ es') = comparator_calls es + comparator_calls es'"
  by (induction es) (simp_all add: comparator_calls_def)

lemma ensure_events_no_compare: "comparator_calls (ensure_events eng repo w c p r t opts) = 0"
  by (simp add: ensure_events_def comparator_calls_def)

lemma prerequisites_trace:
  "trace (prerequisites_done eng repo w c b p r t opts) =
     trace w @ ensure_events eng repo w c b r t opts @
       ensure_events eng repo (fst (ensure_economy_computed eng repo w c b r t opts)) c p r t opts"
  by (simp add: prerequisites_done_def ensure_trace)

lemma prerequisites_no_compare:
  "comparator_calls (trace (prerequisites_done eng repo w c b p r t opts)) =
     comparator_calls (trace w)"
  by (simp add: prerequisites_trace comparator_calls_append ensure_events_no_compare)

lemma prerequisites_present:
  "economy_record repo (db (prerequisites_done eng repo w c b p r t opts)) c b r t opts \<noteq> None"
  "economy_record repo (db (prerequisites_done eng repo w c b p r t opts)) c p r t opts \<noteq> None"
  by (simp_all add: prerequisites_done_def ensure_present ensure_keeps_present)

lemma economy_lookup:
  "get_in_table d ''economy'' ((''policy_id'', q) # economy_kwargs (VERSION repo) c r t opts) =
     economy_record repo d c q r t opts"
  unfolding economy_record_def
  by (rule get_in_table_same_set) (auto simp: economy_match_def economy_kwargs_def)

lemma impact_key_set:
  "set (reform_impact_match v c p b r t opts) = set (impact_key v c p b r t opts)"
  by (auto simp: reform_impact_match_def impact_key_def economy_kwargs_def)

lemma distinct_impact_key: "distinct (map fst (impact_key v c p b r t opts))"
  by (simp add: impact_key_def economy_kwargs_def)

lemma distinct_reform_impact_match: "distinct (map fst (reform_impact_match v c p b r t opts))"
  by (simp add: reform_impact_match_def)

lemma srid_unfold:
  "set_reform_impact_data eng repo w b p c r t opts =
     (let w2 = prerequisites_done eng repo w c b p r t opts;
          key = impact_key (VERSION repo) c p b r t opts
      in case economy_record repo (db w2) c b r t opts of
           None \<Rightarrow> (w2, Inl not_subscriptable)
         | Some be \<Rightarrow>
             if row_get be ''status'' \<noteq> PStr ''ok''
             then (upsert w2 ''reform_impact'' key impact_failed None, Inr ())
             else (case economy_record repo (db w2) c p r t opts of
                     None \<Rightarrow> (w2, Inl not_subscriptable)
                   | Some re \<Rightarrow>
                       if row_get re ''status'' \<noteq> PStr ''ok''
                       then (upsert w2 ''reform_impact'' key impact_failed None, Inr ())
                       else (case loads_column eng (row_get be ''economy_json'') of
                               Inl e \<Rightarrow> (w2, Inl e)
                             | Inr bres \<Rightarrow>
                           (case loads_column eng (row_get re ''economy_json'') of
                               Inl e \<Rightarrow> (w2, Inl e)
                             | Inr rres \<Rightarrow>
                           (case compare_economic_outputs eng bres rres of
                              Inl e \<Rightarrow> (emit w2 Compared, Inl e)
                            | Inr impact \<Rightarrow>
                                (case json_dumps_impact eng impact of
                                   Inl e \<Rightarrow> (emit w2 Compared, Inl e)
                                 | Inr impact_json \<Rightarrow>
                                     (upsert (emit w2 Compared) ''reform_impact'' key
                                        (impact_ok impact_json) None, Inr ())))))))"
proof -
  obtain w1 where e1: "ensure_economy_computed eng repo w c b r t opts = (w1, Inr ())"
    using ensure_eq by blast
  obtain w2 where e2: "ensure_economy_computed eng repo w1 c p r t opts = (w2, Inr ())"
    using ensure_eq by blast
  have w2: "prerequisites_done eng repo w c b p r t opts = w2"
    by (simp add: prerequisites_done_def e1 e2)
  show ?thesis
    unfolding set_reform_impact_data_def
    by (simp add: e1 e2 w2 Let_def economy_lookup impact_key_def impact_failed_def impact_ok_def
             split: option.splits sum.splits)
qed

lemma impact_read:
  assumes "untouched u (impact_key (VERSION repo) c p b r t opts)" "map_of u f = Some x"
  shows "map_option (\<lambda>row. row_get row f)
           (impact_record repo
              (set_in_table d ''reform_impact'' (impact_key (VERSION repo) c p b r t opts) u None)
              c p b r t opts) = Some x"
proof -
  obtain row where
    "get_in_table
       (set_in_table d ''reform_impact'' (impact_key (VERSION repo) c p b r t opts) u None)
       ''reform_impact'' (reform_impact_match (VERSION repo) c p b r t opts) = Some row \<and>
     row_get row f = x"
    using read_after_write [OF assms(1) distinct_impact_key impact_key_set assms(2)] by blast
  then show ?thesis by (simp add: impact_record_def)
qed

lemma untouched_impact_failed: "untouched impact_failed (impact_key v c p b r t opts)"
  by (simp add: untouched_def impact_failed_def impact_key_def economy_kwargs_def)

lemma untouched_impact_ok: "untouched (impact_ok s) (impact_key v c p b r t opts)"
  by (simp add: untouched_def impact_ok_def impact_key_def economy_kwargs_def)

lemma srid_failed:
  assumes "w2 = prerequisites_done eng repo w c b p r t opts"
    and "record_status (economy_record repo (db w2) c b r t opts) \<noteq> Some (PStr ''ok'') \<or>
         record_status (economy_record repo (db w2) c p r t opts) \<noteq> Some (PStr ''ok'')"
  shows "set_reform_impact_data eng repo w b p c r t opts =
           (upsert w2 ''reform_impact'' (impact_key (VERSION repo) c p b r t opts)
              impact_failed None, Inr ())"
proof -
  obtain be where be: "economy_record repo (db w2) c b r t opts = Some be"
    using prerequisites_present(1) [of repo eng w c b p r t opts] assms(1) by auto
  obtain re where re: "economy_record repo (db w2) c p r t opts = Some re"
    using prerequisites_present(2) [of repo eng w c b p r t opts] assms(1) by auto
  have "row_get be ''status'' \<noteq> PStr ''ok'' \<or> row_get re ''status'' \<noteq> PStr ''ok''"
    using assms(2) by (simp add: be re record_status_def)
  then show ?thesis
    using be re assms(1) by (auto simp: srid_unfold Let_def)
qed

section \<open>The writes of one compare request\<close>

lemma writes_under_append:
  "writes_under t k (es @ es') = writes_under t k es @ writes_under t k es'"
  by (induction t k es rule: writes_under.induct) simp_all

lemma economy_match_same:
  "(row_matches (economy_match v c q' r t opts) (economy_match v c q r t opts) \<and>
    row_matches (economy_match v c q r t opts) (economy_match v c q' r t opts)) = (q' = q)"
  by (simp add: row_matches_def economy_match_def eq_commute)

lemma economy_match_self:
  "row_matches (economy_match v c q r t opts) (economy_match v c q r t opts)"
  by (simp add: row_matches_def economy_match_def)

lemma writes_under_ensure_events:
  "writes_under ''economy'' (economy_match (VERSION repo) c q r t opts)
     (ensure_events eng repo w c q' r t opts) =
   (if q' = q \<and> economy_record repo (db w) c q' r t opts = None
    then [economy_outcome eng c q' r t opts] else [])"
  by (simp add: ensure_events_def economy_match_same economy_match_self)

lemma writes_under_impact_ensure_events:
  "writes_under ''reform_impact'' k (ensure_events eng repo w c q r t opts) = []"
  by (simp add: ensure_events_def)

lemma writes_under_impact_key:
  "writes_under ''reform_impact'' (reform_impact_match v c p b r t opts)
     [Wrote ''reform_impact'' (impact_key v c p b r t opts) u] = [u]"
  by (simp add: row_matches_def reform_impact_match_def impact_key_def economy_kwargs_def)

lemma writes_under_impact_match:
  "writes_under ''reform_impact'' (reform_impact_match v c p b r t opts)
     [Wrote ''reform_impact'' (reform_impact_match v c p b r t opts) u] = [u]"
  by (simp add: row_matches_def reform_impact_match_def)

lemma ensure_frame:
  assumes "b \<noteq> p"
  shows "economy_record repo (db (fst (ensure_economy_computed eng repo w c b r t opts))) c p r t opts
           = economy_record repo (db w) c p r t opts"
proof (cases "economy_record repo (db w) c b r t opts = None")
  case True
  have "get_in_table
          (set_in_table (db w) ''economy'' (economy_match (VERSION repo) c b r t opts)
             (economy_outcome eng c b r t opts) None)
          ''economy'' (economy_match (VERSION repo) c p r t opts)
        = get_in_table (db w) ''economy'' (economy_match (VERSION repo) c p r t opts)"
    by (rule get_other_key [where f = "''policy_id''" and v = b and v' = p])
       (simp_all add: economy_match_def assms untouched_economy_outcome [unfolded economy_match_def])
  then show ?thesis
    by (simp add: ensure_miss [OF True] economy_record_def upsert_def emit_def)
next
  case False
  then show ?thesis by (simp add: ensure_hit)
qed

lemma score_miss_shape:
  assumes "score_policy_reform_against_baseline repo w country_id policy_id baseline_policy_id args
             = (w1, Inr (resp, Some (b, p, c, r, t, opts)))"
  shows "w1 = upsert w ''reform_impact'' (reform_impact_match (VERSION repo) c p b r t opts)
                impact_placeholder None \<and> resp = Status ''computing''"
proof -
  obtain region options1 where pop1: "dict_pop args ''region'' = (region, options1)"
    by (cases "dict_pop args ''region''")
  obtain time_period options2 where pop2: "dict_pop options1 ''time_period'' = (time_period, options2)"
    by (cases "dict_pop options1 ''time_period''")
  show ?thesis
    using assms
    by (simp add: score_policy_reform_against_baseline_def pop1 pop2 Let_def impact_placeholder_def
             split: option.split_asm if_split_asm sum.split_asm) auto
qed

lemma srid_cases:
  assumes "set_reform_impact_data eng repo w b p c r t opts = (w', Inr ())"
  shows "w' = upsert (prerequisites_done eng repo w c b p r t opts) ''reform_impact''
                (impact_key (VERSION repo) c p b r t opts) impact_failed None \<or>
         (\<exists>s. w' = upsert (emit (prerequisites_done eng repo w c b p r t opts) Compared)
                        ''reform_impact'' (impact_key (VERSION repo) c p b r t opts)
                        (impact_ok s) None)"
  using assms unfolding srid_unfold Let_def
  by (simp split: option.split_asm if_split_asm sum.split_asm) blast

lemma srid_trace:
  assumes "set_reform_impact_data eng repo w b p c r t opts = (w', Inr ())"
  shows "\<exists>u cmp. trace w' = trace (prerequisites_done eng repo w c b p r t opts) @ cmp @
                      [Wrote ''reform_impact'' (impact_key (VERSION repo) c p b r t opts) u] \<and>
                 (cmp = [] \<or> cmp = [Compared]) \<and>
                 (row_get u ''status'' = PStr ''ok'' \<or> row_get u ''status'' = PStr ''error'')"
proof -
  let ?w2 = "prerequisites_done eng repo w c b p r t opts"
  let ?key = "impact_key (VERSION repo) c p b r t opts"
  consider (failed) "w' = upsert ?w2 ''reform_impact'' ?key impact_failed None"
    | (ok) s where "w' = upsert (emit ?w2 Compared) ''reform_impact'' ?key (impact_ok s) None"
    using srid_cases [OF assms] by blast
  then show ?thesis
  proof cases
    case failed
    have "trace w' = trace ?w2 @ [] @ [Wrote ''reform_impact'' ?key impact_failed]"
      by (simp add: failed upsert_def)
    moreover have "row_get impact_failed ''status'' = PStr ''error''"
      by (simp add: impact_failed_def row_get_def)
    ultimately show ?thesis by blast
  next
    case ok
    have "trace w' = trace ?w2 @ [Compared] @ [Wrote ''reform_impact'' ?key (impact_ok s)]"
      by (simp add: ok upsert_def emit_def)
    moreover have "row_get (impact_ok s) ''status'' = PStr ''ok''"
      by (simp add: impact_ok_def row_get_def)
    ultimately show ?thesis by blast
  qed
qed

lemma economy_outcome_status:
  "row_get (economy_outcome eng c q r t opts) ''status'' = PStr ''ok'' \<or>
   row_get (economy_outcome eng c q r t opts) ''status'' = PStr ''error''"
  by (simp add: row_get_def economy_outcome_def economy_failed_def split: sum.splits)

lemma request_events:
  assumes "score_policy_reform_against_baseline repo w country_id policy_id baseline_policy_id args
             = (w1, Inr (resp, Some (b, p, c, r, t, opts)))"
    and "set_reform_impact_data eng repo w1 b p c r t opts = (w2, Inr ())"
  shows "\<exists>u cmp.
           drop (length (trace w)) (trace w2) =
             Wrote ''reform_impact'' (reform_impact_match (VERSION repo) c p b r t opts)
                   impact_placeholder #
             ensure_events eng repo w1 c b r t opts @
             ensure_events eng repo (fst (ensure_economy_computed eng repo w1 c b r t opts))
               c p r t opts @
             cmp @ [Wrote ''reform_impact'' (impact_key (VERSION repo) c p b r t opts) u] \<and>
           (cmp = [] \<or> cmp = [Compared]) \<and>
           (row_get u ''status'' = PStr ''ok'' \<or> row_get u ''status'' = PStr ''error'')"
proof -
  have w1: "trace w1 = trace w @ [Wrote ''reform_impact''
                (reform_impact_match (VERSION repo) c p b r t opts) impact_placeholder]"
    using score_miss_shape [OF assms(1)] by (simp add: upsert_def)
  obtain u cmp where
    tr: "trace w2 = trace (prerequisites_done eng repo w1 c b p r t opts) @ cmp @
                      [Wrote ''reform_impact'' (impact_key (VERSION repo) c p b r t opts) u]"
    and cmp: "cmp = [] \<or> cmp = [Compared]"
    and u: "row_get u ''status'' = PStr ''ok'' \<or> row_get u ''status'' = PStr ''error''"
    using srid_trace [OF assms(2)] by blast
  have "drop (length (trace w)) (trace w2) =
             Wrote ''reform_impact'' (reform_impact_match (VERSION repo) c p b r t opts)
                   impact_placeholder #
             ensure_events eng repo w1 c b r t opts @
             ensure_events eng repo (fst (ensure_economy_computed eng repo w1 c b r t opts))
               c p r t opts @
             cmp @ [Wrote ''reform_impact'' (impact_key (VERSION repo) c p b r t opts) u]"
    by (simp add: tr prerequisites_trace w1)
  then show ?thesis using cmp u by blast
qed

section \<open>Claims\<close>

text \<open>
  C1. A request whose key already has a record in the cache should get that record's status
  and result back without recomputation, a cached \<open>error\<close> being returned with its message
  as a terminal result. The handler does skip the recomputation on a hit (\<open>score_hit\<close>), but
  it never reads the record it found: in the state \<open>cached_error_world\<close> the reform-impact
  record of the request has status \<open>error\<close> and the dependency-failure message, and the
  same request is answered \<open>{"status": "computing"}\<close>, with the state unchanged.
\<close>

theorem cached_error_reported_as_computing:
  "record_status (impact_record example_repo (db cached_error_world)
                    ''uk'' (PStr ''13'') (PStr ''1'') ''uk'' ''2024'' [])
     = Some (PStr ''error'') \<and>
   record_message (impact_record example_repo (db cached_error_world)
                     ''uk'' (PStr ''13'') (PStr ''1'') ''uk'' ''2024'' [])
     = Some (PStr ''Baseline or reform economy computation failed.'') \<and>
   score_policy_reform_against_baseline example_repo cached_error_world ''uk'' ''13'' (Some ''1'')
       example_args
     = (cached_error_world, Inr (Status ''computing'', None))"
proof -
  note cached = cached_error_world_impact
  have "score_policy_reform_against_baseline example_repo cached_error_world ''uk'' ''13''
          (Some ''1'') example_args = (cached_error_world, Inr (Status ''computing'', None))"
    by (rule score_hit [where region = "''uk''" and time_period = "''2024''"])
       (simp_all add: example_args_def countries_def cached)
  then show ?thesis
    by (simp add: cached record_status_def record_message_def row_get_def)
qed

text \<open>
  C2. When, after both prerequisite computations have completed, at least one of the two
  economy records has a status other than \<open>ok\<close>, the resolver ends normally, the
  reform-impact record then holds status \<open>error\<close> with the message
  \<open>Baseline or reform economy computation failed.\<close> (capital B, final full stop), and the
  comparator was not called during the run.
\<close>

theorem dependency_failure_recorded:
  assumes "w2 = prerequisites_done eng repo w c b p r t opts"
    and "record_status (economy_record repo (db w2) c b r t opts) \<noteq> Some (PStr ''ok'') \<or>
         record_status (economy_record repo (db w2) c p r t opts) \<noteq> Some (PStr ''ok'')"
    and "w3 = fst (set_reform_impact_data eng repo w b p c r t opts)"
  shows "snd (set_reform_impact_data eng repo w b p c r t opts) = Inr () \<and>
         record_status (impact_record repo (db w3) c p b r t opts) = Some (PStr ''error'') \<and>
         record_message (impact_record repo (db w3) c p b r t opts)
           = Some (PStr ''Baseline or reform economy computation failed.'') \<and>
         comparator_calls (trace w3) = comparator_calls (trace w)"
proof -
  let ?key = "impact_key (VERSION repo) c p b r t opts"
  have run: "set_reform_impact_data eng repo w b p c r t opts =
               (upsert w2 ''reform_impact'' ?key impact_failed None, Inr ())"
    using assms(1,2) by (rule srid_failed)
  then have w3: "w3 = upsert w2 ''reform_impact'' ?key impact_failed None"
    using assms(3) by simp
  have status: "record_status (impact_record repo (db w3) c p b r t opts) = Some (PStr ''error'')"
    unfolding record_status_def w3 upsert_def
    using impact_read [OF untouched_impact_failed, where f = "''status''" and x = "PStr ''error''"]
    by (simp add: impact_failed_def)
  have message: "record_message (impact_record repo (db w3) c p b r t opts)
                   = Some (PStr ''Baseline or reform economy computation failed.'')"
    unfolding record_message_def w3 upsert_def
    using impact_read [OF untouched_impact_failed, where f = "''message''"
                         and x = "PStr ''Baseline or reform economy computation failed.''"]
    by (simp add: impact_failed_def)
  have "comparator_calls (trace w3) = comparator_calls (trace w2)"
    by (simp add: w3 upsert_def comparator_calls_def)
  then have calls: "comparator_calls (trace w3) = comparator_calls (trace w)"
    using assms(1) by (simp add: prerequisites_no_compare)
  show ?thesis
    using run status message calls by simp
qed

theorem dependency_failure_recorded_witness:
  "record_status
     (economy_record example_repo
        (db (prerequisites_done example_engine example_repo empty_world
               ''uk'' (PStr ''1'') (PStr ''13'') ''uk'' ''2024'' []))
        ''uk'' (PStr ''13'') ''uk'' ''2024'' []) \<noteq> Some (PStr ''ok'') \<and>
   snd (set_reform_impact_data example_engine example_repo empty_world
          (PStr ''1'') (PStr ''13'') ''uk'' ''uk'' ''2024'' []) = Inr () \<and>
   record_status
     (impact_record example_repo
        (db (fst (set_reform_impact_data example_engine example_repo empty_world
                    (PStr ''1'') (PStr ''13'') ''uk'' ''uk'' ''2024'' [])))
        ''uk'' (PStr ''13'') (PStr ''1'') ''uk'' ''2024'' []) = Some (PStr ''error'') \<and>
   comparator_calls
     (trace (fst (set_reform_impact_data example_engine example_repo empty_world
                    (PStr ''1'') (PStr ''13'') ''uk'' ''uk'' ''2024'' []))) = 0"
proof -
  have failed: "record_status
     (economy_record example_repo
        (db (prerequisites_done example_engine example_repo empty_world
               ''uk'' (PStr ''1'') (PStr ''13'') ''uk'' ''2024'' []))
        ''uk'' (PStr ''13'') ''uk'' ''2024'' []) \<noteq> Some (PStr ''ok'')"
    by (simp add: run_defs prerequisites_done_def Let_def)
  have none: "comparator_calls (trace empty_world) = 0"
    by (simp add: comparator_calls_def empty_world_def)
  show ?thesis
    using dependency_failure_recorded [OF refl disjI2 refl, OF failed] failed none
    by simp
qed

text \<open>
  The message of C2 as the claim spells it (lower case, no full stop) is not the one stored:
  in \<open>cached_error_world\<close> the economy of policy 13 has status \<open>error\<close> and the message of
  the reform-impact record differs from the claim's string.
\<close>

theorem dependency_failure_message_differs:
  "record_status
     (economy_record example_repo (db cached_error_world) ''uk'' (PStr ''13'') ''uk'' ''2024'' [])
     = Some (PStr ''error'') \<and>
   record_message
     (impact_record example_repo (db cached_error_world)
        ''uk'' (PStr ''13'') (PStr ''1'') ''uk'' ''2024'' [])
     \<noteq> Some (PStr ''baseline or reform economy computation failed'')"
proof -
  have "record_status
     (economy_record example_repo (db cached_error_world) ''uk'' (PStr ''13'') ''uk'' ''2024'' [])
     = Some (PStr ''error'')"
    by (simp add: cached_error_world_def run_defs Let_def)
  then show ?thesis
    by (simp add: cached_error_world_impact record_message_def row_get_def)
qed

text \<open>
  C4. When both prerequisite economy records have status \<open>ok\<close> (and their stored JSON
  loads, the comparator returns and its result serializes), the resolver ends normally and
  the reform-impact record holds status \<open>ok\<close> and, as payload, the serialized result of
  the comparator applied to the two stored results: a function of those two results only.
  The comparator is called exactly once.
\<close>

theorem both_ok_impact_is_comparison:
  assumes "w2 = prerequisites_done eng repo w c b p r t opts"
    and "economy_record repo (db w2) c b r t opts = Some be"
    and "economy_record repo (db w2) c p r t opts = Some re"
    and "row_get be ''status'' = PStr ''ok''"
    and "row_get re ''status'' = PStr ''ok''"
    and "loads_column eng (row_get be ''economy_json'') = Inr bres"
    and "loads_column eng (row_get re ''economy_json'') = Inr rres"
    and "compare_economic_outputs eng bres rres = Inr impact"
    and "json_dumps_impact eng impact = Inr impact_json"
    and "w3 = fst (set_reform_impact_data eng repo w b p c r t opts)"
  shows "snd (set_reform_impact_data eng repo w b p c r t opts) = Inr () \<and>
         record_status (impact_record repo (db w3) c p b r t opts) = Some (PStr ''ok'') \<and>
         record_json (impact_record repo (db w3) c p b r t opts) = Some (PStr impact_json) \<and>
         comparator_calls (trace w3) = comparator_calls (trace w) + 1"
proof -
  let ?key = "impact_key (VERSION repo) c p b r t opts"
  have run: "set_reform_impact_data eng repo w b p c r t opts =
               (upsert (emit w2 Compared) ''reform_impact'' ?key (impact_ok impact_json) None, Inr ())"
    using assms(1-9) by (simp add: srid_unfold Let_def)
  then have w3: "w3 = upsert (emit w2 Compared) ''reform_impact'' ?key (impact_ok impact_json) None"
    using assms(10) by simp
  have status: "record_status (impact_record repo (db w3) c p b r t opts) = Some (PStr ''ok'')"
    unfolding record_status_def w3 upsert_def emit_def
    using impact_read [OF untouched_impact_ok [of impact_json],
                         where f = "''status''" and x = "PStr ''ok''"]
    by (simp add: impact_ok_def)
  have payload: "record_json (impact_record repo (db w3) c p b r t opts) = Some (PStr impact_json)"
    unfolding record_json_def w3 upsert_def emit_def
    using impact_read [OF untouched_impact_ok [of impact_json],
                         where f = "''reform_impact_json''" and x = "PStr impact_json"]
    by (simp add: impact_ok_def)
  have "comparator_calls (trace w3) = comparator_calls (trace w2) + 1"
    by (simp add: w3 upsert_def emit_def comparator_calls_def)
  then have calls: "comparator_calls (trace w3) = comparator_calls (trace w) + 1"
    using assms(1) by (simp add: prerequisites_no_compare)
  show ?thesis
    using run status payload calls by simp
qed

theorem both_ok_impact_is_comparison_witness:
  "snd (set_reform_impact_data example_engine example_repo empty_world
          (PStr ''1'') (PStr ''2'') ''uk'' ''uk'' ''2024'' []) = Inr () \<and>
   record_status
     (impact_record example_repo
        (db (fst (set_reform_impact_data example_engine example_repo empty_world
                    (PStr ''1'') (PStr ''2'') ''uk'' ''uk'' ''2024'' [])))
        ''uk'' (PStr ''2'') (PStr ''1'') ''uk'' ''2024'' []) = Some (PStr ''ok'') \<and>
   record_json
     (impact_record example_repo
        (db (fst (set_reform_impact_data example_engine example_repo empty_world
                    (PStr ''1'') (PStr ''2'') ''uk'' ''uk'' ''2024'' [])))
        ''uk'' (PStr ''2'') (PStr ''1'') ''uk'' ''2024'' [])
     = Some (PStr ''economy of 1 against economy of 2'') \<and>
   comparator_calls
     (trace (fst (set_reform_impact_data example_engine example_repo empty_world
                    (PStr ''1'') (PStr ''2'') ''uk'' ''uk'' ''2024'' []))) = 1"
proof -
  let ?w2 = "prerequisites_done example_engine example_repo empty_world
               ''uk'' (PStr ''1'') (PStr ''2'') ''uk'' ''2024'' []"
  have be: "economy_record example_repo (db ?w2) ''uk'' (PStr ''1'') ''uk'' ''2024'' [] =
              Some [(''country_id'', PStr ''uk''), (''policy_id'', PStr ''1''),
                    (''region'', PStr ''uk''), (''time_period'', PStr ''2024''),
                    (''options_json'', PStr ''{}''), (''api_version'', PStr ''0.1.0''),
                    (''economy_json'', PStr ''economy of 1''), (''status'', PStr ''ok'')]"
    by (simp add: run_defs prerequisites_done_def Let_def)
  have re: "economy_record example_repo (db ?w2) ''uk'' (PStr ''2'') ''uk'' ''2024'' [] =
              Some [(''country_id'', PStr ''uk''), (''policy_id'', PStr ''2''),
                    (''region'', PStr ''uk''), (''time_period'', PStr ''2024''),
                    (''options_json'', PStr ''{}''), (''api_version'', PStr ''0.1.0''),
                    (''economy_json'', PStr ''economy of 2''), (''status'', PStr ''ok'')]"
    by (simp add: run_defs prerequisites_done_def Let_def)
  have none: "comparator_calls (trace empty_world) = 0"
    by (simp add: comparator_calls_def empty_world_def)
  have "snd (set_reform_impact_data example_engine example_repo empty_world
          (PStr ''1'') (PStr ''2'') ''uk'' ''uk'' ''2024'' []) = Inr () \<and>
   record_status
     (impact_record example_repo
        (db (fst (set_reform_impact_data example_engine example_repo empty_world
                    (PStr ''1'') (PStr ''2'') ''uk'' ''uk'' ''2024'' [])))
        ''uk'' (PStr ''2'') (PStr ''1'') ''uk'' ''2024'' []) = Some (PStr ''ok'') \<and>
   record_json
     (impact_record example_repo
        (db (fst (set_reform_impact_data example_engine example_repo empty_world
                    (PStr ''1'') (PStr ''2'') ''uk'' ''uk'' ''2024'' [])))
        ''uk'' (PStr ''2'') (PStr ''1'') ''uk'' ''2024'' [])
     = Some (PStr ''economy of 1 against economy of 2'') \<and>
   comparator_calls
     (trace (fst (set_reform_impact_data example_engine example_repo empty_world
                    (PStr ''1'') (PStr ''2'') ''uk'' ''uk'' ''2024'' [])))
     = comparator_calls (trace empty_world) + 1"
    by (rule both_ok_impact_is_comparison [OF refl be re _ _ _ _ _ _ refl,
              where bres = "''economy of 1''" and rres = "''economy of 2''"])
       (simp_all add: row_get_def loads_column_def example_engine_def)
  then show ?thesis by (simp add: none)
qed

text \<open>
  C3. Failures of the simulator and of the comparator should both end as error records and
  never leave the dispatcher or the resolver as exceptions. The simulator half holds
  (\<open>ensure_never_raises\<close>, \<open>simulator_failure_recorded\<close>). The comparator is called by
  \<open>set_reform_impact_data\<close> outside any handler: with both economies computed and a
  comparator that raises, the thread ends in that exception and the reform-impact record
  keeps the placeholder status \<open>computing\<close>.
\<close>

theorem comparator_failure_escapes:
  "snd (compare_request failing_comparator example_repo empty_world ''uk'' ''2'' (Some ''1'')
          example_args)
     = (Inr (Status ''computing''), Some (Inl (Raised ''comparison failed''))) \<and>
   record_status
     (impact_record example_repo
        (db (fst (compare_request failing_comparator example_repo empty_world ''uk'' ''2''
                    (Some ''1'') example_args)))
        ''uk'' (PStr ''2'') (PStr ''1'') ''uk'' ''2024'' [])
     = Some (PStr ''computing'')"
  by (simp add: run_defs Let_def)

text \<open>
  C7. Idempotence of \<open>ensure_economy_computed\<close>. When the key was absent and the first call
  resolved it to \<open>ok\<close>, a second call changes nothing at all (database and trace are the
  same), so the record read under the key, with its payload, is identical after both calls,
  and over the two calls the simulator ran exactly once for the key. The function itself
  returns no value: the payload is what a caller reads from the store under the key.
\<close>

theorem ensure_twice:
  assumes "economy_record repo (db w) c p r t opts = None"
    and "w1 = fst (ensure_economy_computed eng repo w c p r t opts)"
    and "record_status (economy_record repo (db w1) c p r t opts) = Some (PStr ''ok'')"
  shows "ensure_economy_computed eng repo w1 c p r t opts = (w1, Inr ()) \<and>
         economy_record repo (db (fst (ensure_economy_computed eng repo w1 c p r t opts))) c p r t opts
           = economy_record repo (db w1) c p r t opts \<and>
         simulator_calls (trace (fst (ensure_economy_computed eng repo w1 c p r t opts))) c p r t opts
           = simulator_calls (trace w) c p r t opts + 1"
proof -
  have present: "economy_record repo (db w1) c p r t opts \<noteq> None"
    using assms(3) by (auto simp: record_status_def)
  have second: "ensure_economy_computed eng repo w1 c p r t opts = (w1, Inr ())"
    using present by (rule ensure_hit)
  have "trace w1 = trace w @ [Simulated c p r t opts,
                      Wrote ''economy'' (economy_match (VERSION repo) c p r t opts)
                            (economy_outcome eng c p r t opts)]"
    using ensure_trace_miss [OF assms(1)] assms(2) by simp
  then have "simulator_calls (trace w1) c p r t opts = simulator_calls (trace w) c p r t opts + 1"
    by (simp add: simulator_calls_def)
  then show ?thesis using second by simp
qed

theorem ensure_twice_witness:
  "economy_record example_repo (db empty_world) ''uk'' (PStr ''2'') ''uk'' ''2024'' [] = None \<and>
   record_status
     (economy_record example_repo
        (db (fst (ensure_economy_computed example_engine example_repo empty_world
                    ''uk'' (PStr ''2'') ''uk'' ''2024'' [])))
        ''uk'' (PStr ''2'') ''uk'' ''2024'' []) = Some (PStr ''ok'') \<and>
   simulator_calls
     (trace (fst (ensure_economy_computed example_engine example_repo
                    (fst (ensure_economy_computed example_engine example_repo empty_world
                            ''uk'' (PStr ''2'') ''uk'' ''2024'' []))
                    ''uk'' (PStr ''2'') ''uk'' ''2024'' [])))
     ''uk'' (PStr ''2'') ''uk'' ''2024'' [] = 1"
proof -
  have absent: "economy_record example_repo (db empty_world) ''uk'' (PStr ''2'') ''uk'' ''2024'' []
                  = None"
    by (simp add: run_defs)
  have ok: "record_status
     (economy_record example_repo
        (db (fst (ensure_economy_computed example_engine example_repo empty_world
                    ''uk'' (PStr ''2'') ''uk'' ''2024'' [])))
        ''uk'' (PStr ''2'') ''uk'' ''2024'' []) = Some (PStr ''ok'')"
    by (simp add: run_defs Let_def)
  have none: "simulator_calls (trace empty_world) ''uk'' (PStr ''2'') ''uk'' ''2024'' [] = 0"
    by (simp add: simulator_calls_def empty_world_def)
  have "simulator_calls
     (trace (fst (ensure_economy_computed example_engine example_repo
                    (fst (ensure_economy_computed example_engine example_repo empty_world
                            ''uk'' (PStr ''2'') ''uk'' ''2024'' []))
                    ''uk'' (PStr ''2'') ''uk'' ''2024'' [])))
     ''uk'' (PStr ''2'') ''uk'' ''2024'' []
       = simulator_calls (trace empty_world) ''uk'' (PStr ''2'') ''uk'' ''2024'' [] + 1"
    using ensure_twice [OF absent refl ok] by blast
  then have once: "simulator_calls
     (trace (fst (ensure_economy_computed example_engine example_repo
                    (fst (ensure_economy_computed example_engine example_repo empty_world
                            ''uk'' (PStr ''2'') ''uk'' ''2024'' []))
                    ''uk'' (PStr ''2'') ''uk'' ''2024'' [])))
     ''uk'' (PStr ''2'') ''uk'' ''2024'' [] = 1"
    by (simp only: none)
  show ?thesis
    by (intro conjI absent ok once)
qed

text \<open>
  C10. \<open>get_current_law_policy_id\<close> takes for granted that the country has a current-law
  policy row (one whose hash is that of the empty reform). When there is none, \<open>fetchone()\<close>
  gives \<open>None\<close> and the subscript \<open>[0]\<close> raises; a compare request that leaves out
  \<open>baseline_policy_id\<close> (with region and time period given and a known country) then ends in
  that exception, not in a response, and writes nothing.
\<close>

theorem current_law_missing_raises:
  assumes "get_in_table (db w) ''policy''
             [(''country_id'', PStr country_id), (''policy_hash'', PStr (hash_object repo []))] = None"
    and "map_of args ''region'' = Some region"
    and "map_of args ''time_period'' = Some time_period"
    and "country_id \<in> set countries"
  shows "get_current_law_policy_id repo (db w) country_id = Inl not_subscriptable \<and>
         score_policy_reform_against_baseline repo w country_id policy_id None args
           = (w, Inl not_subscriptable)"
proof -
  have cur: "get_current_law_policy_id repo (db w) country_id = Inl not_subscriptable"
    using assms(1) by (simp add: get_current_law_policy_id_def)
  have tp: "map_of (filter (\<lambda>kv. fst kv \<noteq> ''region'') args) ''time_period'' = Some time_period"
    using assms(3) by (induction args) auto
  show ?thesis
    using cur assms(2,4) tp
    by (simp add: score_policy_reform_against_baseline_def dict_pop_def)
qed

theorem current_law_missing_raises_witness:
  "get_current_law_policy_id example_repo (db empty_world) ''uk'' = Inl not_subscriptable \<and>
   score_policy_reform_against_baseline example_repo empty_world ''uk'' ''2'' None example_args
     = (empty_world, Inl not_subscriptable)"
  using current_law_missing_raises
          [of empty_world "''uk''" example_repo example_args "''uk''" "''2024''" "''2''"]
  by (simp add: empty_world_def example_args_def countries_def get_in_table_def)

end
